theory Spec2Isabelle
  imports Complex_Main
begin

section \<open>Python values\<close>

text \<open>
  A Python float is a finite number, an infinity or NaN.  Finite arithmetic is taken
  to be exact (rounding and overflow of binary64 are not modelled, and the two zeros
  are one), so the literals \<open>273.15\<close>, \<open>1e-9\<close> and \<open>8.617e-5\<close> of
  \<^verbatim>\<open>backend.py\<close> stand for the decimal numbers they spell.
\<close>

datatype pyfloat = Fin real | PInf | NInf | NaN

datatype exn_class =
    TypeError | ValueError | AttributeError | KeyError | IndexError
  | OverflowError | ZeroDivisionError | OtherException string

text \<open>An exception: its class and the text \<^verbatim>\<open>str(e)\<close> gives.\<close>

datatype py_exn = PyExn exn_class string

fun exn_class_of :: "py_exn \<Rightarrow> exn_class" where
  "exn_class_of (PyExn c m) = c"

fun str_exn :: "py_exn \<Rightarrow> string" where
  "str_exn (PyExn c m) = m"

text \<open>\<^verbatim>\<open>a + b\<close> on floats.\<close>

fun fadd :: "pyfloat \<Rightarrow> pyfloat \<Rightarrow> pyfloat" where
  "fadd (Fin a) (Fin b) = Fin (a + b)"
| "fadd NaN y = NaN"
| "fadd x NaN = NaN"
| "fadd PInf NInf = NaN"
| "fadd NInf PInf = NaN"
| "fadd PInf y = PInf"
| "fadd x PInf = PInf"
| "fadd NInf y = NInf"
| "fadd x NInf = NInf"

text \<open>\<^verbatim>\<open>a > b\<close> on floats: every comparison with NaN is false.\<close>

fun fgt :: "pyfloat \<Rightarrow> pyfloat \<Rightarrow> bool" where
  "fgt (Fin a) (Fin b) = (a > b)"
| "fgt NaN y = False"
| "fgt x NaN = False"
| "fgt x PInf = False"
| "fgt NInf y = False"
| "fgt PInf y = True"
| "fgt x NInf = True"

text \<open>\<^verbatim>\<open>a * b\<close> on floats (no exception: NumPy scalars only warn).\<close>

fun fmul :: "pyfloat \<Rightarrow> pyfloat \<Rightarrow> pyfloat" where
  "fmul (Fin a) (Fin b) = Fin (a * b)"
| "fmul NaN y = NaN"
| "fmul x NaN = NaN"
| "fmul (Fin a) PInf = (if a = 0 then NaN else if a > 0 then PInf else NInf)"
| "fmul (Fin a) NInf = (if a = 0 then NaN else if a > 0 then NInf else PInf)"
| "fmul PInf (Fin b) = (if b = 0 then NaN else if b > 0 then PInf else NInf)"
| "fmul NInf (Fin b) = (if b = 0 then NaN else if b > 0 then NInf else PInf)"
| "fmul PInf PInf = PInf"
| "fmul PInf NInf = NInf"
| "fmul NInf PInf = NInf"
| "fmul NInf NInf = PInf"

text \<open>\<^verbatim>\<open>x ** 2\<close> on a NumPy float.\<close>

fun fsquare :: "pyfloat \<Rightarrow> pyfloat" where
  "fsquare (Fin a) = Fin (a ^ 2)"
| "fsquare NaN = NaN"
| "fsquare PInf = PInf"
| "fsquare NInf = PInf"

text \<open>\<^verbatim>\<open>1 / x\<close> for a float \<open>x\<close>: Python raises on a zero divisor.\<close>

fun one_over :: "pyfloat \<Rightarrow> py_exn + pyfloat" where
  "one_over (Fin a) =
     (if a = 0 then Inl (PyExn ZeroDivisionError ''float division by zero'')
      else Inr (Fin (1 / a)))"
| "one_over NaN = Inr NaN"
| "one_over PInf = Inr (Fin 0)"
| "one_over NInf = Inr (Fin 0)"

text \<open>\<^verbatim>\<open>math.log(x)\<close> for a float \<open>x\<close>.\<close>

fun flog :: "pyfloat \<Rightarrow> py_exn + pyfloat" where
  "flog (Fin a) =
     (if a > 0 then Inr (Fin (ln a)) else Inl (PyExn ValueError ''math domain error''))"
| "flog NaN = Inr NaN"
| "flog PInf = Inr PInf"
| "flog NInf = Inl (PyExn ValueError ''math domain error'')"

subsection \<open>Decoded JSON\<close>

text \<open>
  What \<^verbatim>\<open>request.get_json()\<close> hands to the handler: \<^verbatim>\<open>None\<close>, a bool,
  an int, a float, a str, a list or a dict with string keys (in insertion order).
\<close>

datatype json =
    JNull | JBool bool | JInt int | JFloat pyfloat | JStr string
  | JArr "json list" | JObj "(string \<times> json) list"

type_synonym pydict = "(string \<times> json) list"

definition sq :: char where
  "sq = CHR 0x27"

definition quoted :: "string \<Rightarrow> string" where
  "quoted s = [sq] @ s @ [sq]"

fun type_name :: "json \<Rightarrow> string" where
  "type_name JNull = ''NoneType''"
| "type_name (JBool b) = ''bool''"
| "type_name (JInt n) = ''int''"
| "type_name (JFloat x) = ''float''"
| "type_name (JStr s) = ''str''"
| "type_name (JArr xs) = ''list''"
| "type_name (JObj d) = ''dict''"

text \<open>\<^verbatim>\<open>d.get(k)\<close>: the value, or \<^verbatim>\<open>None\<close> for an absent key.\<close>

definition dict_get :: "pydict \<Rightarrow> string \<Rightarrow> json" where
  "dict_get d k = (case map_of d k of None \<Rightarrow> JNull | Some v \<Rightarrow> v)"

text \<open>\<^verbatim>\<open>d[k]\<close>: the value, or KeyError for an absent key.\<close>

definition dict_getitem :: "pydict \<Rightarrow> string \<Rightarrow> py_exn + json" where
  "dict_getitem d k =
     (case map_of d k of None \<Rightarrow> Inl (PyExn KeyError (quoted k)) | Some v \<Rightarrow> Inr v)"

text \<open>\<^verbatim>\<open>d[k] = v\<close>: an existing key keeps its place, a new key goes last.\<close>

fun dict_setitem :: "pydict \<Rightarrow> string \<Rightarrow> json \<Rightarrow> pydict" where
  "dict_setitem [] k v = [(k, v)]"
| "dict_setitem ((k', v') # d) k v =
     (if k' = k then (k, v) # d else (k', v') # dict_setitem d k v)"

text \<open>
  \<^verbatim>\<open>float(n)\<close> for an int: the conversion rounds to the nearest binary64 and raises
  once the result would be \<open>2 ^ 1024\<close>.
\<close>

definition int_to_float :: "int \<Rightarrow> py_exn + pyfloat" where
  "int_to_float n =
     (if \<bar>n\<bar> \<ge> 2 ^ 1024 - 2 ^ 970
      then Inl (PyExn OverflowError ''int too large to convert to float'')
      else Inr (Fin (of_int n)))"

text \<open>
  The builtin \<^verbatim>\<open>float(v)\<close> on a decoded JSON value.  How a str is read (sign,
  digits, exponent, \<^verbatim>\<open>inf\<close>, \<^verbatim>\<open>nan\<close>, surrounding blanks) is the interpreter's
  business and is the parameter \<open>float_of_str\<close>; the messages are CPython's.
\<close>

fun py_float :: "(string \<Rightarrow> py_exn + pyfloat) \<Rightarrow> json \<Rightarrow> py_exn + pyfloat" where
  "py_float float_of_str (JFloat x) = Inr x"
| "py_float float_of_str (JInt n) = int_to_float n"
| "py_float float_of_str (JBool b) = Inr (Fin (if b then 1 else 0))"
| "py_float float_of_str (JStr s) = float_of_str s"
| "py_float float_of_str v =
     Inl (PyExn TypeError
       (''float() argument must be a string or a real number, not '' @ quoted (type_name v)))"

section \<open>The server\<close>

text \<open>
  \<^verbatim>\<open>EXPERIMENTAL_DATA_LOG\<close> is a module-level list of the accepted payload dicts.
  Each handler takes the list and returns it with its answer.
\<close>

type_synonym store = "pydict list"

definition EXPERIMENTAL_DATA_LOG :: store where
  "EXPERIMENTAL_DATA_LOG = []"

record band_gap_result =
  message :: string
  band_gap_eV :: pyfloat
  r_squared :: pyfloat
  slope_value :: pyfloat
  inv_T :: "pyfloat list"
  ln_I :: "pyfloat list"

text \<open>The JSON objects the three API handlers build.\<close>

datatype body =
    Logged string int
  | Error string
  | AllData store nat
  | Calculated band_gap_result

text \<open>
  What a handler does: it returns a body with an HTTP status, or an exception leaves
  it (Flask then answers for the handler).
\<close>

datatype outcome = Response nat body | Raised py_exn

subsection \<open>\<^verbatim>\<open>log_data\<close>\<close>

text \<open>\<^verbatim>\<open>data[k] = float(data.get(k))\<close> on a dict.\<close>

definition convert_field ::
  "(string \<Rightarrow> py_exn + pyfloat) \<Rightarrow> pydict \<Rightarrow> string \<Rightarrow> py_exn + pydict" where
  "convert_field float_of_str d k =
     (case py_float float_of_str (dict_get d k) of
        Inl e \<Rightarrow> Inl e
      | Inr x \<Rightarrow> Inr (dict_setitem d k (JFloat x)))"

text \<open>What \<^verbatim>\<open>data.get\<close> raises when \<^verbatim>\<open>data\<close> is not a dict.\<close>

definition no_get :: "json \<Rightarrow> py_exn" where
  "no_get v =
     PyExn AttributeError
       (quoted (type_name v) @ '' object has no attribute '' @ quoted ''get'')"

text \<open>
  Line 45, \<^verbatim>\<open>print(f"Data logged: T=...")\<close>: the line is formatted from
  \<^verbatim>\<open>data['temperature']\<close> and \<^verbatim>\<open>data['current']\<close>, floats by then, and written to
  the standard output.  Whether the write raises (an output that cannot encode the
  degree sign, a closed pipe) is the environment's business and is the parameter
  \<open>py_print\<close>: \<open>None\<close> when the call returns, the exception when it raises.

  The body of the \<^verbatim>\<open>try\<close>, with the list as it is when the body returns or raises.
  \<open>request\<close> is what \<^verbatim>\<open>request.get_json()\<close> does: it returns the decoded body or
  raises (no JSON content type, malformed JSON).  The conversions raise before the
  \<^verbatim>\<open>append\<close>, the \<^verbatim>\<open>print\<close> after it.
\<close>

definition log_data_try ::
  "(string \<Rightarrow> py_exn + pyfloat) \<Rightarrow> (pydict \<Rightarrow> py_exn option) \<Rightarrow> py_exn + json \<Rightarrow> store
     \<Rightarrow> (py_exn + outcome) \<times> store" where
  "log_data_try float_of_str py_print request s =
     (case request of
        Inl e \<Rightarrow> (Inl e, s)
      | Inr (JObj data) \<Rightarrow>
          (case convert_field float_of_str data ''temperature'' of
             Inl e \<Rightarrow> (Inl e, s)
           | Inr data1 \<Rightarrow>
          (case convert_field float_of_str data1 ''current'' of
             Inl e \<Rightarrow> (Inl e, s)
           | Inr data2 \<Rightarrow>
          (case convert_field float_of_str data2 ''voltage'' of
             Inl e \<Rightarrow> (Inl e, s)
           | Inr data3 \<Rightarrow>
               (let s' = s @ [data3]
                in (case py_print data3 of
                      Some e \<Rightarrow> (Inl e, s')
                    | None \<Rightarrow>
                        (Inr (Response 201
                                (Logged ''Data logged successfully'' (int (length s') - 1))),
                         s'))))))
      | Inr v \<Rightarrow> (Inl (no_get v), s))"

text \<open>The handler: \<^verbatim>\<open>except Exception as e\<close> answers 500 with the message.\<close>

definition log_data ::
  "(string \<Rightarrow> py_exn + pyfloat) \<Rightarrow> (pydict \<Rightarrow> py_exn option) \<Rightarrow> py_exn + json \<Rightarrow> store
     \<Rightarrow> outcome \<times> store" where
  "log_data float_of_str py_print request s =
     (case log_data_try float_of_str py_print request s of
        (Inr r, s') \<Rightarrow> (r, s')
      | (Inl e, s') \<Rightarrow> (Response 500 (Error (''Failed to log data: '' @ str_exn e)), s'))"

subsection \<open>\<^verbatim>\<open>get_all_data\<close>\<close>

definition get_all_data :: "store \<Rightarrow> outcome \<times> store" where
  "get_all_data s = (Response 200 (AllData s (length s)), s)"

subsection \<open>\<^verbatim>\<open>calculate_band_gap\<close>\<close>

text \<open>
  The loop reads \<^verbatim>\<open>data['temperature']\<close> and \<^verbatim>\<open>data['current']\<close> back from the
  stored dicts, so its operators meet whatever Python object is stored there.
  \<^verbatim>\<open>v + c\<close>, \<^verbatim>\<open>v > c\<close> and \<^verbatim>\<open>math.log(v)\<close> for an object \<open>v\<close> and a float \<open>c\<close>:
\<close>

definition dq :: char where
  "dq = CHR 0x22"

definition concat_msg :: "string \<Rightarrow> string" where
  "concat_msg ty =
     ''can only concatenate '' @ ty @ '' (not '' @ [dq] @ ''float'' @ [dq] @ '') to '' @ ty"

fun py_add_float :: "json \<Rightarrow> pyfloat \<Rightarrow> py_exn + pyfloat" where
  "py_add_float (JFloat x) c = Inr (fadd x c)"
| "py_add_float (JInt n) c =
     (case int_to_float n of Inl e \<Rightarrow> Inl e | Inr x \<Rightarrow> Inr (fadd x c))"
| "py_add_float (JBool b) c = Inr (fadd (Fin (if b then 1 else 0)) c)"
| "py_add_float (JStr s) c = Inl (PyExn TypeError (concat_msg ''str''))"
| "py_add_float (JArr xs) c = Inl (PyExn TypeError (concat_msg ''list''))"
| "py_add_float v c =
     Inl (PyExn TypeError
       (''unsupported operand type(s) for +: '' @ quoted (type_name v) @ '' and ''
        @ quoted ''float''))"

fun py_gt_float :: "json \<Rightarrow> pyfloat \<Rightarrow> py_exn + bool" where
  "py_gt_float (JFloat x) c = Inr (fgt x c)"
| "py_gt_float (JInt n) c = Inr (fgt (Fin (of_int n)) c)"
| "py_gt_float (JBool b) c = Inr (fgt (Fin (if b then 1 else 0)) c)"
| "py_gt_float v c =
     Inl (PyExn TypeError
       (quoted ''>'' @ '' not supported between instances of '' @ quoted (type_name v)
        @ '' and '' @ quoted ''float''))"

fun math_log :: "json \<Rightarrow> py_exn + pyfloat" where
  "math_log (JFloat x) = flog x"
| "math_log (JInt n) = flog (Fin (of_int n))"
| "math_log (JBool b) = flog (Fin (if b then 1 else 0))"
| "math_log v = Inl (PyExn TypeError (''must be real number, not '' @ type_name v))"

text \<open>
  The \<^verbatim>\<open>for\<close> loop over the list, with the two lists it appends to.  An exception
  raised in the body ends the loop and the handler.
\<close>

fun collect_points ::
  "store \<Rightarrow> pyfloat list \<Rightarrow> pyfloat list \<Rightarrow> py_exn + (pyfloat list \<times> pyfloat list)" where
  "collect_points [] X_inv_T Y_ln_I = Inr (X_inv_T, Y_ln_I)"
| "collect_points (data # rest) X_inv_T Y_ln_I =
     (case dict_getitem data ''temperature'' of
        Inl e \<Rightarrow> Inl e
      | Inr t \<Rightarrow>
     (case py_add_float t (Fin 273.15) of
        Inl e \<Rightarrow> Inl e
      | Inr T_kelvin \<Rightarrow>
     (case dict_getitem data ''current'' of
        Inl e \<Rightarrow> Inl e
      | Inr current \<Rightarrow>
     (case py_gt_float current (Fin (1 / 10 ^ 9)) of
        Inl e \<Rightarrow> Inl e
      | Inr valid \<Rightarrow>
          if valid then
            (case one_over T_kelvin of
               Inl e \<Rightarrow> Inl e
             | Inr x \<Rightarrow>
            (case math_log current of
               Inl e \<Rightarrow> Inl e
             | Inr y \<Rightarrow> collect_points rest (X_inv_T @ [x]) (Y_ln_I @ [y])))
          else collect_points rest X_inv_T Y_ln_I))))"

text \<open>
  NumPy is not part of the repository: \<^verbatim>\<open>np.polyfit(x, y, deg)\<close> and
  \<^verbatim>\<open>np.corrcoef(x, y)\<close> are parameters.  Each returns an array (the coefficients,
  highest degree first; the correlation matrix, row by row) or raises.
\<close>

type_synonym polyfit = "pyfloat list \<Rightarrow> pyfloat list \<Rightarrow> nat \<Rightarrow> py_exn + pyfloat list"

type_synonym corrcoef = "pyfloat list \<Rightarrow> pyfloat list \<Rightarrow> py_exn + pyfloat list list"

text \<open>\<^verbatim>\<open>a, b = xs\<close>.\<close>

fun unpack2 :: "'a list \<Rightarrow> py_exn + ('a \<times> 'a)" where
  "unpack2 [a, b] = Inr (a, b)"
| "unpack2 [] = Inl (PyExn ValueError ''not enough values to unpack (expected 2, got 0)'')"
| "unpack2 [a] = Inl (PyExn ValueError ''not enough values to unpack (expected 2, got 1)'')"
| "unpack2 xs = Inl (PyExn ValueError ''too many values to unpack (expected 2)'')"

text \<open>\<^verbatim>\<open>m[i, j]\<close> on a two-dimensional array.\<close>

definition mat_index :: "'a list list \<Rightarrow> nat \<Rightarrow> nat \<Rightarrow> py_exn + 'a" where
  "mat_index m i j =
     (if i < length m \<and> j < length (m ! i) then Inr (m ! i ! j)
      else Inl (PyExn IndexError ''index is out of bounds''))"

definition k_B :: pyfloat where
  "k_B = Fin (8.617 / 10 ^ 5)"

text \<open>The body of the \<^verbatim>\<open>try\<close>: the fit, \<open>Eg\<close> and \<open>r_squared\<close>.\<close>

definition fit_try ::
  "polyfit \<Rightarrow> corrcoef \<Rightarrow> pyfloat list \<Rightarrow> pyfloat list \<Rightarrow> py_exn + (pyfloat \<times> pyfloat \<times> pyfloat)" where
  "fit_try np_polyfit np_corrcoef X_inv_T Y_ln_I =
     (case np_polyfit X_inv_T Y_ln_I 1 of
        Inl e \<Rightarrow> Inl e
      | Inr coefficients \<Rightarrow>
     (case unpack2 coefficients of
        Inl e \<Rightarrow> Inl e
      | Inr (slope, intercept) \<Rightarrow>
          (let Eg = fmul (fmul (Fin (- 2)) k_B) slope
           in (case np_corrcoef X_inv_T Y_ln_I of
                 Inl e \<Rightarrow> Inl e
               | Inr correlation_matrix \<Rightarrow>
              (case mat_index correlation_matrix 0 1 of
                 Inl e \<Rightarrow> Inl e
               | Inr c \<Rightarrow> Inr (Eg, fsquare c, slope))))))"

definition not_enough :: string where
  "not_enough =
     ''Not enough valid data points for calculation (need at least 2 non-zero current readings).''"

definition calculate_band_gap :: "polyfit \<Rightarrow> corrcoef \<Rightarrow> store \<Rightarrow> outcome \<times> store" where
  "calculate_band_gap np_polyfit np_corrcoef s =
     (case collect_points s [] [] of
        Inl e \<Rightarrow> (Raised e, s)
      | Inr (X_inv_T, Y_ln_I) \<Rightarrow>
          if length X_inv_T < 2 then (Response 400 (Error not_enough), s)
          else
            (case fit_try np_polyfit np_corrcoef X_inv_T Y_ln_I of
               Inl e \<Rightarrow> (Response 500 (Error (''Linear fit failed: '' @ str_exn e)), s)
             | Inr (Eg, r_sq, slope) \<Rightarrow>
                 (Response 200
                    (Calculated
                       \<lparr>message = ''Calculation successful'',
                        band_gap_eV = Eg,
                        r_squared = r_sq,
                        slope_value = slope,
                        inv_T = X_inv_T,
                        ln_I = Y_ln_I\<rparr>),
                  s)))"

section \<open>Notions used in the statements\<close>

text \<open>The key \<open>k\<close> of a stored dict holds a float; the float it holds.\<close>

definition is_float_at :: "pydict \<Rightarrow> string \<Rightarrow> bool" where
  "is_float_at d k = (case map_of d k of Some (JFloat x) \<Rightarrow> True | _ \<Rightarrow> False)"

definition float_at :: "pydict \<Rightarrow> string \<Rightarrow> pyfloat" where
  "float_at d k = (case map_of d k of Some (JFloat x) \<Rightarrow> x | _ \<Rightarrow> NaN)"

definition reading_ok :: "pydict \<Rightarrow> bool" where
  "reading_ok d =
     (is_float_at d ''temperature'' \<and> is_float_at d ''current'' \<and> is_float_at d ''voltage'')"

definition store_ok :: "store \<Rightarrow> bool" where
  "store_ok s = list_all reading_ok s"

text \<open>The test of the loop on a stored reading: \<^verbatim>\<open>current > 1e-9\<close>.\<close>

definition valid_reading :: "pydict \<Rightarrow> bool" where
  "valid_reading d = fgt (float_at d ''current'') (Fin (1 / 10 ^ 9))"

text \<open>The reading sits at absolute zero: \<^verbatim>\<open>temperature\<close> is exactly \<open>-273.15\<close>.\<close>

definition at_absolute_zero :: "pydict \<Rightarrow> bool" where
  "at_absolute_zero d = (float_at d ''temperature'' = Fin (- 273.15))"

text \<open>No reading that passes the test sits at absolute zero.\<close>

definition no_zero_kelvin :: "store \<Rightarrow> bool" where
  "no_zero_kelvin s = list_all (\<lambda>d. \<not> (valid_reading d \<and> at_absolute_zero d)) s"

text \<open>The two coordinates the loop computes for a reading.\<close>

definition x_of :: "pydict \<Rightarrow> py_exn + pyfloat" where
  "x_of d = one_over (fadd (float_at d ''temperature'') (Fin 273.15))"

definition y_of :: "pydict \<Rightarrow> py_exn + pyfloat" where
  "y_of d = flog (float_at d ''current'')"

text \<open>The three conversions of \<^verbatim>\<open>log_data\<close> in a row, and the dict a request ends as.\<close>

definition convert_fields ::
  "(string \<Rightarrow> py_exn + pyfloat) \<Rightarrow> pydict \<Rightarrow> py_exn + pydict" where
  "convert_fields float_of_str d =
     (case convert_field float_of_str d ''temperature'' of
        Inl e \<Rightarrow> Inl e
      | Inr d1 \<Rightarrow>
     (case convert_field float_of_str d1 ''current'' of
        Inl e \<Rightarrow> Inl e
      | Inr d2 \<Rightarrow> convert_field float_of_str d2 ''voltage''))"

definition accepted ::
  "(string \<Rightarrow> py_exn + pyfloat) \<Rightarrow> py_exn + json \<Rightarrow> pydict option" where
  "accepted float_of_str request =
     (case request of
        Inr (JObj d) \<Rightarrow>
          (case convert_fields float_of_str d of Inl e \<Rightarrow> None | Inr d' \<Rightarrow> Some d')
      | _ \<Rightarrow> None)"


text \<open>A client that posts the requests one after the other: the answers and the list.\<close>

fun log_all ::
  "(string \<Rightarrow> py_exn + pyfloat) \<Rightarrow> (pydict \<Rightarrow> py_exn option) \<Rightarrow> (py_exn + json) list \<Rightarrow> store
     \<Rightarrow> outcome list \<times> store" where
  "log_all float_of_str py_print [] s = ([], s)"
| "log_all float_of_str py_print (request # requests) s =
     (case log_data float_of_str py_print request s of
        (out, s') \<Rightarrow>
          (case log_all float_of_str py_print requests s' of
             (outs, s'') \<Rightarrow> (out # outs, s'')))"

fun status_of :: "outcome \<Rightarrow> nat option" where
  "status_of (Response st b) = Some st"
| "status_of (Raised e) = None"

definition client_error_class :: "nat \<Rightarrow> bool" where
  "client_error_class st = (400 \<le> st \<and> st < 500)"

definition server_error_class :: "nat \<Rightarrow> bool" where
  "server_error_class st = (500 \<le> st \<and> st < 600)"


text \<open>
  Sample data for the closed instances below: a stored reading with the given
  temperature, current and voltage; an interpreter whose \<^verbatim>\<open>float\<close> accepts no str;
  a standard output that takes every line and one that takes none;
  a NumPy whose fit has slope \<open>-5000\<close> and whose correlation is \<open>-0.9\<close>.
\<close>

abbreviation reading_of :: "real \<Rightarrow> real \<Rightarrow> real \<Rightarrow> pydict" where
  "reading_of t c v \<equiv>
     [(''temperature'', JFloat (Fin t)), (''current'', JFloat (Fin c)),
      (''voltage'', JFloat (Fin v))]"

abbreviation no_str :: "string \<Rightarrow> py_exn + pyfloat" where
  "no_str \<equiv> (\<lambda>t. Inl (PyExn ValueError t))"

abbreviation stdout_ok :: "pydict \<Rightarrow> py_exn option" where
  "stdout_ok \<equiv> (\<lambda>d. None)"

abbreviation stdout_fails :: "pydict \<Rightarrow> py_exn option" where
  "stdout_fails \<equiv>
     (\<lambda>d. Some (PyExn (OtherException ''UnicodeEncodeError'') ''cannot encode character''))"

abbreviation sample_polyfit :: polyfit where
  "sample_polyfit \<equiv> (\<lambda>x y n. Inr [Fin (- 5000), Fin 10])"

abbreviation sample_corrcoef :: corrcoef where
  "sample_corrcoef \<equiv> (\<lambda>x y. Inr [[Fin 1, Fin (- 0.9)], [Fin (- 0.9), Fin 1]])"

section \<open>Ingestion\<close>

lemma map_of_dict_setitem: "map_of (dict_setitem d k v) = (map_of d)(k \<mapsto> v)"
  by (induction d k v rule: dict_setitem.induct) auto

lemma dict_get_setitem_other: "k' \<noteq> k \<Longrightarrow> dict_get (dict_setitem d k v) k' = dict_get d k'"
  by (simp add: dict_get_def map_of_dict_setitem)

lemma is_float_at_setitem:
  "is_float_at (dict_setitem d k v) k' = (if k' = k then (\<exists>x. v = JFloat x) else is_float_at d k')"
  by (auto simp: is_float_at_def map_of_dict_setitem split: json.splits)

lemma getitem_float:
  "is_float_at d k \<Longrightarrow> dict_getitem d k = Inr (JFloat (float_at d k))"
  by (auto simp: is_float_at_def float_at_def dict_getitem_def split: option.splits json.splits)

lemma convert_field_Inr:
  "convert_field fos d k = Inr d' \<Longrightarrow>
     \<exists>x. py_float fos (dict_get d k) = Inr x \<and> d' = dict_setitem d k (JFloat x)"
  by (auto simp: convert_field_def split: sum.splits)

lemma convert_field_floats:
  "convert_field fos d k = Inr d' \<Longrightarrow>
     is_float_at d' k' = (k' = k \<or> is_float_at d k')"
  by (auto dest!: convert_field_Inr simp: is_float_at_setitem split: if_splits)

lemma convert_fields_reading_ok:
  "convert_fields fos d = Inr d' \<Longrightarrow> reading_ok d'"
  by (auto simp: convert_fields_def reading_ok_def convert_field_floats split: sum.splits)

lemma accepted_reading_ok: "accepted fos request = Some d \<Longrightarrow> reading_ok d"
  by (auto simp: accepted_def convert_fields_reading_ok split: sum.splits json.splits)

lemma log_data_try_fields:
  "log_data_try fos pr (Inr (JObj d)) s =
     (case convert_fields fos d of
        Inl e \<Rightarrow> (Inl e, s)
      | Inr d' \<Rightarrow>
          (case pr d' of
             Some e \<Rightarrow> (Inl e, s @ [d'])
           | None \<Rightarrow>
               (Inr (Response 201 (Logged ''Data logged successfully'' (int (length s)))),
                s @ [d'])))"
  by (simp add: log_data_try_def convert_fields_def Let_def split: sum.splits option.splits)

lemma log_data_accepted:
  "accepted fos request = Some d \<Longrightarrow>
     log_data fos pr request s =
       (case pr d of
          None \<Rightarrow> Response 201 (Logged ''Data logged successfully'' (int (length s)))
        | Some e \<Rightarrow> Response 500 (Error (''Failed to log data: '' @ str_exn e)),
        s @ [d])"
  by (auto simp: accepted_def log_data_def log_data_try_fields
      split: sum.splits json.splits option.splits)

lemma log_data_rejected:
  assumes "accepted fos request = None"
  shows "\<exists>e. log_data fos pr request s =
           (Response 500 (Error (''Failed to log data: '' @ str_exn e)), s)"
proof (cases request)
  case (Inl e)
  then show ?thesis by (auto simp: log_data_def log_data_try_def)
next
  case (Inr v)
  show ?thesis
  proof (cases "\<exists>d. v = JObj d")
    case True
    then obtain d where v: "v = JObj d" by blast
    with Inr assms obtain e where "convert_fields fos d = Inl e"
      by (auto simp: accepted_def split: sum.splits)
    with Inr v show ?thesis by (auto simp: log_data_def log_data_try_fields)
  next
    case False
    with Inr show ?thesis by (cases v) (auto simp: log_data_def log_data_try_def)
  qed
qed

lemma convert_fields_first_error:
  assumes "k \<in> {''temperature'', ''current'', ''voltage''}"
    and "isl (py_float fos (dict_get d k))"
  shows "\<exists>k' \<in> {''temperature'', ''current'', ''voltage''}. \<exists>e.
           py_float fos (dict_get d k') = Inl e \<and> convert_fields fos d = Inl e"
proof (cases "py_float fos (dict_get d ''temperature'')")
  case (Inl e)
  then show ?thesis by (auto simp: convert_fields_def convert_field_def)
next
  case t: (Inr x)
  define d1 where "d1 = dict_setitem d ''temperature'' (JFloat x)"
  have c1: "convert_field fos d ''temperature'' = Inr d1"
    using t by (simp add: convert_field_def d1_def)
  have g1: "dict_get d1 ''current'' = dict_get d ''current''"
    by (simp add: d1_def dict_get_setitem_other)
  have g1v: "dict_get d1 ''voltage'' = dict_get d ''voltage''"
    by (simp add: d1_def dict_get_setitem_other)
  show ?thesis
  proof (cases "py_float fos (dict_get d ''current'')")
    case (Inl e)
    then have "convert_fields fos d = Inl e"
      using c1 g1 by (simp add: convert_fields_def convert_field_def)
    with Inl show ?thesis by blast
  next
    case c: (Inr y)
    define d2 where "d2 = dict_setitem d1 ''current'' (JFloat y)"
    have c2: "convert_field fos d1 ''current'' = Inr d2"
      using c g1 by (simp add: convert_field_def d2_def)
    have g2: "dict_get d2 ''voltage'' = dict_get d ''voltage''"
      using g1v by (simp add: d2_def dict_get_setitem_other)
    show ?thesis
    proof (cases "py_float fos (dict_get d ''voltage'')")
      case (Inl e)
      then have "convert_fields fos d = Inl e"
        using c1 c2 g2 by (simp add: convert_fields_def convert_field_def)
      with Inl show ?thesis by blast
    next
      case (Inr z)
      with t c assms show ?thesis by auto
    qed
  qed
qed

lemma missing_field_unparsable:
  "map_of d k = None \<Longrightarrow> isl (py_float fos (dict_get d k))"
  by (simp add: dict_get_def)


lemma log_all_Cons:
  "log_all fos pr (request # requests) s =
     (fst (log_data fos pr request s)
        # fst (log_all fos pr requests (snd (log_data fos pr request s))),
      snd (log_all fos pr requests (snd (log_data fos pr request s))))"
  by (simp split: prod.splits)

lemma log_all_store:
  "snd (log_all fos pr requests s) = s @ List.map_filter (accepted fos) requests"
proof (induction requests arbitrary: s)
  case Nil
  then show ?case by simp
next
  case (Cons request requests)
  show ?case
  proof (cases "accepted fos request")
    case None
    then obtain e where "log_data fos pr request s =
        (Response 500 (Error (''Failed to log data: '' @ str_exn e)), s)"
      using log_data_rejected by blast
    with None Cons.IH [of s] show ?thesis
      by (simp add: log_all_Cons del: log_all.simps)
  next
    case (Some d)
    then have "snd (log_data fos pr request s) = s @ [d]"
      by (simp add: log_data_accepted)
    with Some Cons.IH [of "s @ [d]"] show ?thesis
      by (simp add: log_all_Cons del: log_all.simps)
  qed
qed





lemma log_data_store_ok: "store_ok s \<Longrightarrow> store_ok (snd (log_data fos pr request s))"
proof (cases "accepted fos request")
  case None
  assume "store_ok s"
  then show ?thesis using log_data_rejected [OF None, of pr s] by auto
next
  case (Some d)
  assume "store_ok s"
  then show ?thesis
    using log_data_accepted [OF Some, of pr s] accepted_reading_ok [OF Some]
    by (simp add: store_ok_def)
qed

lemma map_filter_accepted_ok: "list_all reading_ok (List.map_filter (accepted fos) requests)"
  by (induction requests)
     (auto simp: accepted_reading_ok split: option.splits)

lemma log_all_store_ok: "store_ok s \<Longrightarrow> store_ok (snd (log_all fos pr requests s))"
  by (simp add: log_all_store store_ok_def map_filter_accepted_ok)

text \<open>
  C4.  Ingestion is all or nothing.  When one of the three fields of a posted dict is
  missing or \<^verbatim>\<open>float\<close> raises on it, \<^verbatim>\<open>log_data\<close> answers with an error and the
  list is the one before the call (a missing key is such a field: \<^verbatim>\<open>float(None)\<close>
  raises).  The same holds for every request that does not pass the three conversions
  (a body that is no dict, a body \<^verbatim>\<open>get_json\<close> refuses).  So every dict in a list
  built from the empty list holds a float under each of the three keys, whatever the
  \<^verbatim>\<open>print\<close> does.
\<close>

theorem log_data_atomic:
  "(k \<in> {''temperature'', ''current'', ''voltage''} \<and> isl (py_float fos (dict_get d k)) \<longrightarrow>
      (\<exists>m. log_data fos pr (Inr (JObj d)) s = (Response 500 (Error m), s)))
   \<and> (map_of d k' = None \<longrightarrow> isl (py_float fos (dict_get d k')))
   \<and> (accepted fos request = None \<longrightarrow>
        (\<exists>m. log_data fos pr request s = (Response 500 (Error m), s)))
   \<and> store_ok (snd (log_all fos pr requests EXPERIMENTAL_DATA_LOG))"
proof (intro conjI impI)
  assume "k \<in> {''temperature'', ''current'', ''voltage''} \<and> isl (py_float fos (dict_get d k))"
  then obtain e where "convert_fields fos d = Inl e"
    using convert_fields_first_error [of k fos d] by blast
  then show "\<exists>m. log_data fos pr (Inr (JObj d)) s = (Response 500 (Error m), s)"
    by (simp add: log_data_def log_data_try_fields)
next
  assume "map_of d k' = None"
  then show "isl (py_float fos (dict_get d k'))" by (rule missing_field_unparsable)
next
  assume "accepted fos request = None"
  then show "\<exists>m. log_data fos pr request s = (Response 500 (Error m), s)"
    using log_data_rejected [of fos request pr s] by blast
next
  show "store_ok (snd (log_all fos pr requests EXPERIMENTAL_DATA_LOG))"
    by (rule log_all_store_ok) (simp add: EXPERIMENTAL_DATA_LOG_def store_ok_def)
qed

text \<open>
  A request without \<^verbatim>\<open>voltage\<close> and with a \<^verbatim>\<open>current\<close> that is no number, and a
  body that is a list, on a standard output that takes no line.
\<close>

theorem log_data_atomic_witness:
  "''current'' \<in> {''temperature'', ''current'', ''voltage''}
   \<and> isl (py_float no_str
            (dict_get [(''temperature'', JInt 25), (''current'', JStr ''abc'')] ''current''))
   \<and> map_of [(''temperature'', JInt 25), (''current'', JStr ''abc'')] ''voltage'' = None
   \<and> accepted no_str (Inr (JArr [])) = None
   \<and> (\<exists>m. log_data no_str stdout_fails
             (Inr (JObj [(''temperature'', JInt 25), (''current'', JStr ''abc'')]))
             [reading_of 20 1 0]
           = (Response 500 (Error m), [reading_of 20 1 0]))
   \<and> isl (py_float no_str
            (dict_get [(''temperature'', JInt 25), (''current'', JStr ''abc'')] ''voltage''))
   \<and> (\<exists>m. log_data no_str stdout_fails (Inr (JArr [])) [reading_of 20 1 0]
           = (Response 500 (Error m), [reading_of 20 1 0]))
   \<and> store_ok (snd (log_all no_str stdout_fails
             [Inr (JObj [(''temperature'', JInt 25), (''current'', JInt 2),
                         (''voltage'', JBool True)]),
              Inr (JArr [])]
             EXPERIMENTAL_DATA_LOG))"
  using log_data_atomic [of "''current''" no_str
      "[(''temperature'', JInt 25), (''current'', JStr ''abc'')]"
      stdout_fails
      "[reading_of 20 1 0]"
      "''voltage''"
      "Inr (JArr [])"
      "[Inr (JObj [(''temperature'', JInt 25), (''current'', JInt 2), (''voltage'', JBool True)]),
        Inr (JArr [])]"]
  by (simp add: dict_get_def accepted_def)

text \<open>
  C5 as stated fails: a request without \<^verbatim>\<open>voltage\<close> is answered with status 500,
  which is not a client-error status.
\<close>

theorem log_data_failure_status_counterexample:
  "isl (py_float no_str
          (dict_get [(''temperature'', JInt 25), (''current'', JFloat (Fin 0.001))] ''voltage''))
   \<and> status_of (fst (log_data no_str stdout_ok
         (Inr (JObj [(''temperature'', JInt 25), (''current'', JFloat (Fin 0.001))])) []))
       = Some 500
   \<and> \<not> client_error_class 500"
  by (simp add: dict_get_def log_data_def log_data_try_def convert_field_def int_to_float_def
      client_error_class_def)

text \<open>
  C5, amended.  For a posted dict with a missing or unparsable field, \<^verbatim>\<open>log_data\<close>
  answers \<^verbatim>\<open>{"error": "Failed to log data: " + str(e)}\<close> with status 500, a
  server-error status, where \<open>e\<close> is the exception \<^verbatim>\<open>float\<close> raised on one of the
  three fields, and the list is unchanged.
\<close>

theorem log_data_failure_report:
  assumes "k \<in> {''temperature'', ''current'', ''voltage''}"
    and "isl (py_float fos (dict_get d k))"
  shows "\<exists>k' \<in> {''temperature'', ''current'', ''voltage''}. \<exists>e.
           py_float fos (dict_get d k') = Inl e \<and>
           log_data fos pr (Inr (JObj d)) s =
             (Response 500 (Error (''Failed to log data: '' @ str_exn e)), s) \<and>
           server_error_class 500"
proof -
  obtain k' e where k': "k' \<in> {''temperature'', ''current'', ''voltage''}"
    and e: "py_float fos (dict_get d k') = Inl e" and c: "convert_fields fos d = Inl e"
    using convert_fields_first_error [OF assms] by blast
  have "log_data fos pr (Inr (JObj d)) s =
      (Response 500 (Error (''Failed to log data: '' @ str_exn e)), s)"
    using c by (simp add: log_data_def log_data_try_fields)
  with k' e show ?thesis by (auto simp: server_error_class_def)
qed

theorem log_data_failure_report_witness:
  "''voltage'' \<in> {''temperature'', ''current'', ''voltage''}
   \<and> isl (py_float (\<lambda>t. Inl (PyExn ValueError (''could not convert string to float: '' @ t)))
           (dict_get [(''temperature'', JInt 25), (''current'', JStr ''abc'')] ''voltage''))
   \<and> log_data (\<lambda>t. Inl (PyExn ValueError (''could not convert string to float: '' @ t)))
        stdout_ok
        (Inr (JObj [(''temperature'', JInt 25), (''current'', JStr ''abc'')])) []
      = (Response 500 (Error ''Failed to log data: could not convert string to float: abc''), [])"
  using log_data_failure_report [of "''voltage''"
      "\<lambda>t. Inl (PyExn ValueError (''could not convert string to float: '' @ t))"
      "[(''temperature'', JInt 25), (''current'', JStr ''abc'')]" stdout_ok "[]"]
  by (simp add: dict_get_def log_data_def log_data_try_def convert_field_def int_to_float_def)




section \<open>The working set\<close>

lemma collect_points_reading:
  assumes "reading_ok d"
  shows "collect_points (d # ds) X Y =
     (if valid_reading d then
        (case x_of d of
           Inl e \<Rightarrow> Inl e
         | Inr x \<Rightarrow>
             (case y_of d of
                Inl e \<Rightarrow> Inl e
              | Inr y \<Rightarrow> collect_points ds (X @ [x]) (Y @ [y])))
      else collect_points ds X Y)"
proof -
  have t: "dict_getitem d ''temperature'' = Inr (JFloat (float_at d ''temperature''))"
    and c: "dict_getitem d ''current'' = Inr (JFloat (float_at d ''current''))"
    using assms by (simp_all add: reading_ok_def getitem_float)
  show ?thesis
    by (simp add: t c valid_reading_def x_of_def y_of_def split: sum.splits)
qed

lemma y_of_valid: "valid_reading d \<Longrightarrow> \<exists>y. y_of d = Inr y"
  by (cases "float_at d ''current''") (auto simp: valid_reading_def y_of_def)

lemma x_of_zero:
  "at_absolute_zero d \<Longrightarrow> x_of d = Inl (PyExn ZeroDivisionError ''float division by zero'')"
  by (simp add: at_absolute_zero_def x_of_def)

lemma x_of_nonzero: "\<not> at_absolute_zero d \<Longrightarrow> \<exists>x. x_of d = Inr x"
  by (cases "float_at d ''temperature''") (auto simp: at_absolute_zero_def x_of_def)

lemma collect_points_ok:
  assumes "store_ok s" and "no_zero_kelvin s"
  shows "\<exists>xs ys. collect_points s X Y = Inr (X @ xs, Y @ ys) \<and>
           map Inr xs = map x_of (filter valid_reading s) \<and>
           map Inr ys = map y_of (filter valid_reading s)"
  using assms
proof (induction s arbitrary: X Y)
  case Nil
  then show ?case by simp
next
  case (Cons d ds)
  then have ok: "reading_ok d" and oks: "store_ok ds"
    and nz: "\<not> (valid_reading d \<and> at_absolute_zero d)" and nzs: "no_zero_kelvin ds"
    by (simp_all add: store_ok_def no_zero_kelvin_def)
  show ?case
  proof (cases "valid_reading d")
    case False
    with Cons.IH [OF oks nzs, of X Y] ok show ?thesis
      by (simp add: collect_points_reading del: collect_points.simps)
  next
    case True
    with nz obtain x y where x: "x_of d = Inr x" and y: "y_of d = Inr y"
      using x_of_nonzero y_of_valid by blast
    from Cons.IH [OF oks nzs, of "X @ [x]" "Y @ [y]"]
    obtain xs ys where "collect_points ds (X @ [x]) (Y @ [y]) = Inr ((X @ [x]) @ xs, (Y @ [y]) @ ys)"
      and "map Inr xs = map x_of (filter valid_reading ds)"
      and "map Inr ys = map y_of (filter valid_reading ds)"
      by blast
    with True ok x y show ?thesis
      by (intro exI [of _ "x # xs"] exI [of _ "y # ys"])
         (simp add: collect_points_reading del: collect_points.simps)
  qed
qed

lemma collect_points_zero:
  assumes "store_ok s" and "\<not> no_zero_kelvin s"
  shows "collect_points s X Y = Inl (PyExn ZeroDivisionError ''float division by zero'')"
  using assms
proof (induction s arbitrary: X Y)
  case Nil
  then show ?case by (simp add: no_zero_kelvin_def)
next
  case (Cons d ds)
  then have ok: "reading_ok d" and oks: "store_ok ds" by (simp_all add: store_ok_def)
  show ?case
  proof (cases "valid_reading d")
    case False
    with Cons.prems have "\<not> no_zero_kelvin ds" by (simp add: no_zero_kelvin_def)
    with Cons.IH [OF oks, of X Y] False ok show ?thesis
      by (simp add: collect_points_reading del: collect_points.simps)
  next
    case True
    show ?thesis
    proof (cases "at_absolute_zero d")
      case True
      with \<open>valid_reading d\<close> ok show ?thesis
        by (simp add: collect_points_reading x_of_zero del: collect_points.simps)
    next
      case False
      with \<open>valid_reading d\<close> obtain x y where x: "x_of d = Inr x" and y: "y_of d = Inr y"
        using x_of_nonzero y_of_valid by blast
      from False Cons.prems have "\<not> no_zero_kelvin ds" by (simp add: no_zero_kelvin_def)
      with Cons.IH [OF oks, of "X @ [x]" "Y @ [y]"] \<open>valid_reading d\<close> ok x y show ?thesis
        by (simp add: collect_points_reading del: collect_points.simps)
    qed
  qed
qed

lemma no_zero_kelvin_iff:
  "no_zero_kelvin s = (\<forall>d \<in> set s. \<not> (valid_reading d \<and> at_absolute_zero d))"
  by (simp add: no_zero_kelvin_def list_all_iff)

lemma calculate_band_gap_points:
  assumes "collect_points s [] [] = Inr (X, Y)"
  shows "calculate_band_gap np_polyfit np_corrcoef s =
     (if length X < 2 then (Response 400 (Error not_enough), s)
      else
        (case fit_try np_polyfit np_corrcoef X Y of
           Inl e \<Rightarrow> (Response 500 (Error (''Linear fit failed: '' @ str_exn e)), s)
         | Inr (Eg, r_sq, slope) \<Rightarrow>
             (Response 200
                (Calculated
                   \<lparr>message = ''Calculation successful'', band_gap_eV = Eg, r_squared = r_sq,
                    slope_value = slope, inv_T = X, ln_I = Y\<rparr>),
              s)))"
  using assms by (simp add: calculate_band_gap_def)


text \<open>
  C1 as stated fails: a reading at \<open>-273.15\<close> degrees with current 1 passes the test
  \<^verbatim>\<open>current > 1e-9\<close>, yet it enters no working set, since the loop ends in
  \<^verbatim>\<open>1 / T_kelvin\<close> with a division by zero.  The list is one \<^verbatim>\<open>log_data\<close> builds.
\<close>

theorem working_set_counterexample:
  "snd (log_data no_str stdout_ok
          (Inr (JObj [(''temperature'', JFloat (Fin (- 273.15))), (''current'', JInt 1),
                      (''voltage'', JInt 0)]))
          EXPERIMENTAL_DATA_LOG)
     = [reading_of (- 273.15) 1 0]
   \<and> valid_reading (reading_of (- 273.15) 1 0)
   \<and> collect_points [reading_of (- 273.15) 1 0] [] []
     = Inl (PyExn ZeroDivisionError ''float division by zero'')"
  by (simp add: log_data_def log_data_try_def convert_field_def dict_get_def int_to_float_def
      EXPERIMENTAL_DATA_LOG_def valid_reading_def float_at_def dict_getitem_def)

text \<open>
  C1, amended.  On a list built by \<^verbatim>\<open>log_data\<close> in which no reading with
  \<^verbatim>\<open>current > 1e-9\<close> has temperature \<open>-273.15\<close>, the loop ends with the working
  set: the points of exactly the readings with \<^verbatim>\<open>current > 1e-9\<close>, in the order of
  the list, each point being \<open>(1 / (temperature + 273.15), ln current)\<close>.  The other
  readings are left out without an error, and \<^verbatim>\<open>get_all_data\<close> still returns every
  reading.
\<close>

theorem working_set:
  "(store_ok s \<and> no_zero_kelvin s \<longrightarrow>
      (\<exists>X Y. collect_points s [] [] = Inr (X, Y)
         \<and> map Inr X = map x_of (filter valid_reading s)
         \<and> map Inr Y = map y_of (filter valid_reading s))
      \<and> get_all_data s = (Response 200 (AllData s (length s)), s))
   \<and> (float_at d ''current'' = Fin c \<longrightarrow> valid_reading d = (c > 1 / 10 ^ 9))
   \<and> (float_at d' ''temperature'' = Fin t \<and> t \<noteq> - 273.15 \<longrightarrow>
         x_of d' = Inr (Fin (1 / (t + 273.15))))
   \<and> (float_at d' ''current'' = Fin c' \<and> c' > 1 / 10 ^ 9 \<longrightarrow> y_of d' = Inr (Fin (ln c')))"
proof (intro conjI impI)
  assume "store_ok s \<and> no_zero_kelvin s"
  then show "\<exists>X Y. collect_points s [] [] = Inr (X, Y)
         \<and> map Inr X = map x_of (filter valid_reading s)
         \<and> map Inr Y = map y_of (filter valid_reading s)"
    using collect_points_ok [of s "[]" "[]"] by auto
next
  show "get_all_data s = (Response 200 (AllData s (length s)), s)"
    by (simp add: get_all_data_def)
next
  assume "float_at d ''current'' = Fin c"
  then show "valid_reading d = (c > 1 / 10 ^ 9)" by (simp add: valid_reading_def)
next
  assume "float_at d' ''temperature'' = Fin t \<and> t \<noteq> - 273.15"
  then show "x_of d' = Inr (Fin (1 / (t + 273.15)))" by (simp add: x_of_def)
next
  assume c: "float_at d' ''current'' = Fin c' \<and> c' > 1 / 10 ^ 9"
  have "(0::real) < 1 / 10 ^ 9" by simp
  with c have "c' > 0" by linarith
  with c show "y_of d' = Inr (Fin (ln c'))" by (simp add: y_of_def)
qed

text \<open>Three readings, the second with current \<open>1e-10\<close>.\<close>

theorem working_set_witness:
  "store_ok
     [reading_of 25 0.001 0.5,
      reading_of 50 (1 / 10 ^ 10) 0.5,
      reading_of 75 0.004 0.5]
   \<and> no_zero_kelvin
     [reading_of 25 0.001 0.5,
      reading_of 50 (1 / 10 ^ 10) 0.5,
      reading_of 75 0.004 0.5]
   \<and> collect_points
     [reading_of 25 0.001 0.5,
      reading_of 50 (1 / 10 ^ 10) 0.5,
      reading_of 75 0.004 0.5] [] []
     = Inr ([Fin (1 / (25 + 273.15)), Fin (1 / (75 + 273.15))], [Fin (ln 0.001), Fin (ln 0.004)])
   \<and> filter valid_reading
     [reading_of 25 0.001 0.5,
      reading_of 50 (1 / 10 ^ 10) 0.5,
      reading_of 75 0.004 0.5]
     = [reading_of 25 0.001 0.5,
        reading_of 75 0.004 0.5]
   \<and> map x_of
     [reading_of 25 0.001 0.5,
      reading_of 75 0.004 0.5]
     = [Inr (Fin (1 / (25 + 273.15))), Inr (Fin (1 / (75 + 273.15)))]
   \<and> map y_of
     [reading_of 25 0.001 0.5,
      reading_of 75 0.004 0.5]
     = [Inr (Fin (ln 0.001)), Inr (Fin (ln 0.004))]
   \<and> fst (get_all_data
     [reading_of 25 0.001 0.5,
      reading_of 50 (1 / 10 ^ 10) 0.5,
      reading_of 75 0.004 0.5])
     = Response 200 (AllData
     [reading_of 25 0.001 0.5,
      reading_of 50 (1 / 10 ^ 10) 0.5,
      reading_of 75 0.004 0.5] 3)
   \<and> float_at (reading_of 50 (1 / 10 ^ 10) 0.5) ''current''
     = Fin (1 / 10 ^ 10)
   \<and> \<not> valid_reading (reading_of 50 (1 / 10 ^ 10) 0.5)
   \<and> float_at (reading_of 25 0.001 0.5) ''temperature''
     = Fin 25
   \<and> (25::real) \<noteq> - 273.15
   \<and> x_of (reading_of 25 0.001 0.5)
     = Inr (Fin (1 / (25 + 273.15)))
   \<and> float_at (reading_of 25 0.001 0.5) ''current''
     = Fin 0.001
   \<and> (0.001::real) > 1 / 10 ^ 9
   \<and> y_of (reading_of 25 0.001 0.5)
     = Inr (Fin (ln 0.001))"
  using working_set [of
     "[reading_of 25 0.001 0.5,
      reading_of 50 (1 / 10 ^ 10) 0.5,
      reading_of 75 0.004 0.5]"
     "(reading_of 50 (1 / 10 ^ 10) 0.5)"
     "1 / 10 ^ 10"
     "(reading_of 25 0.001 0.5)"
     25 "0.001"]
  by (simp add: store_ok_def reading_ok_def is_float_at_def no_zero_kelvin_def
      valid_reading_def at_absolute_zero_def float_at_def dict_getitem_def x_of_def y_of_def
      get_all_data_def)

text \<open>
  C3 as stated fails: the list below has one reading with \<^verbatim>\<open>current > 1e-9\<close>, fewer
  than two, and \<^verbatim>\<open>calculate_band_gap\<close> does not answer 400: the division by zero
  leaves the handler.
\<close>

theorem insufficient_data_counterexample:
  "store_ok
     [reading_of 50 (1 / 10 ^ 10) 0.5,
      reading_of (- 273.15) 1 0]
   \<and> length (filter valid_reading
     [reading_of 50 (1 / 10 ^ 10) 0.5,
      reading_of (- 273.15) 1 0]) < 2
   \<and> calculate_band_gap sample_polyfit sample_corrcoef
     [reading_of 50 (1 / 10 ^ 10) 0.5,
      reading_of (- 273.15) 1 0]
     = (Raised (PyExn ZeroDivisionError ''float division by zero''),
     [reading_of 50 (1 / 10 ^ 10) 0.5,
      reading_of (- 273.15) 1 0])"
  by (simp add: store_ok_def reading_ok_def is_float_at_def no_zero_kelvin_def
      valid_reading_def at_absolute_zero_def float_at_def dict_getitem_def x_of_def y_of_def
      calculate_band_gap_def)

text \<open>
  C3, amended.  On a list built by \<^verbatim>\<open>log_data\<close> in which no reading with
  \<^verbatim>\<open>current > 1e-9\<close> has temperature \<open>-273.15\<close>: with fewer than two readings
  of \<^verbatim>\<open>current > 1e-9\<close> the answer is the 400 response, whatever the length of the
  list and whatever NumPy would do (the fit is not consulted); with two or more the
  answer is 200 or 500, never the 400 response.
\<close>

theorem insufficient_data:
  "(store_ok s \<and> no_zero_kelvin s \<and> length (filter valid_reading s) < 2 \<longrightarrow>
      calculate_band_gap np_polyfit np_corrcoef s = (Response 400 (Error not_enough), s))
   \<and> (store_ok s' \<and> no_zero_kelvin s' \<and> 2 \<le> length (filter valid_reading s') \<longrightarrow>
      status_of (fst (calculate_band_gap np_polyfit np_corrcoef s')) = Some 200
      \<or> status_of (fst (calculate_band_gap np_polyfit np_corrcoef s')) = Some 500)"
proof (intro conjI impI)
  assume a: "store_ok s \<and> no_zero_kelvin s \<and> length (filter valid_reading s) < 2"
  then obtain X Y where c: "collect_points s [] [] = Inr (X, Y)"
    and X: "map Inr X = map x_of (filter valid_reading s)"
    using collect_points_ok [of s "[]" "[]"] by auto
  from X have "length X = length (filter valid_reading s)"
    by (metis length_map)
  with a c show "calculate_band_gap np_polyfit np_corrcoef s = (Response 400 (Error not_enough), s)"
    by (simp add: calculate_band_gap_points)
next
  assume a: "store_ok s' \<and> no_zero_kelvin s' \<and> 2 \<le> length (filter valid_reading s')"
  then obtain X Y where c: "collect_points s' [] [] = Inr (X, Y)"
    and X: "map Inr X = map x_of (filter valid_reading s')"
    using collect_points_ok [of s' "[]" "[]"] by auto
  from X have "length X = length (filter valid_reading s')"
    by (metis length_map)
  with a c show "status_of (fst (calculate_band_gap np_polyfit np_corrcoef s')) = Some 200
      \<or> status_of (fst (calculate_band_gap np_polyfit np_corrcoef s')) = Some 500"
    by (cases "fit_try np_polyfit np_corrcoef X Y") (auto simp: calculate_band_gap_points)
qed

text \<open>One valid reading out of two; two valid readings out of three.\<close>

theorem insufficient_data_witness:
  "store_ok
     [reading_of 25 0.001 0.5,
      reading_of 50 (1 / 10 ^ 10) 0.5]
   \<and> no_zero_kelvin
     [reading_of 25 0.001 0.5,
      reading_of 50 (1 / 10 ^ 10) 0.5]
   \<and> length (filter valid_reading
     [reading_of 25 0.001 0.5,
      reading_of 50 (1 / 10 ^ 10) 0.5]) < 2
   \<and> calculate_band_gap sample_polyfit sample_corrcoef
     [reading_of 25 0.001 0.5,
      reading_of 50 (1 / 10 ^ 10) 0.5]
     = (Response 400 (Error not_enough),
     [reading_of 25 0.001 0.5,
      reading_of 50 (1 / 10 ^ 10) 0.5])
   \<and> store_ok
     [reading_of 25 0.001 0.5,
      reading_of 50 (1 / 10 ^ 10) 0.5,
      reading_of 75 0.004 0.5]
   \<and> no_zero_kelvin
     [reading_of 25 0.001 0.5,
      reading_of 50 (1 / 10 ^ 10) 0.5,
      reading_of 75 0.004 0.5]
   \<and> 2 \<le> length (filter valid_reading
     [reading_of 25 0.001 0.5,
      reading_of 50 (1 / 10 ^ 10) 0.5,
      reading_of 75 0.004 0.5])
   \<and> status_of (fst (calculate_band_gap sample_polyfit sample_corrcoef
     [reading_of 25 0.001 0.5,
      reading_of 50 (1 / 10 ^ 10) 0.5,
      reading_of 75 0.004 0.5])) = Some 200"
  using insufficient_data [of
     "[reading_of 25 0.001 0.5,
      reading_of 50 (1 / 10 ^ 10) 0.5]"
     "sample_polyfit" "sample_corrcoef"
     "[reading_of 25 0.001 0.5,
      reading_of 50 (1 / 10 ^ 10) 0.5,
      reading_of 75 0.004 0.5]"]
  by (simp add: store_ok_def reading_ok_def is_float_at_def no_zero_kelvin_def
      valid_reading_def at_absolute_zero_def float_at_def dict_getitem_def x_of_def y_of_def
      calculate_band_gap_def fit_try_def mat_index_def)


text \<open>
  C10.  On a list built by \<^verbatim>\<open>log_data\<close> that holds a reading with temperature
  \<open>-273.15\<close> and \<^verbatim>\<open>current > 1e-9\<close>, a ZeroDivisionError leaves
  \<^verbatim>\<open>calculate_band_gap\<close>: the handler builds no response, neither the 400 nor the
  500 one.  For a reading with \<^verbatim>\<open>current > 1e-9\<close> and any other temperature both
  coordinates are computed and the loop appends them.
\<close>

theorem unguarded_division:
  "(store_ok s \<and> d \<in> set s \<and> valid_reading d \<and> at_absolute_zero d \<longrightarrow>
      (\<exists>e. calculate_band_gap np_polyfit np_corrcoef s = (Raised e, s)
         \<and> exn_class_of e = ZeroDivisionError)
      \<and> status_of (fst (calculate_band_gap np_polyfit np_corrcoef s)) = None)
   \<and> (reading_ok d' \<and> valid_reading d' \<and> \<not> at_absolute_zero d' \<longrightarrow>
      (\<exists>x y. x_of d' = Inr x \<and> y_of d' = Inr y
         \<and> collect_points [d'] X Y = Inr (X @ [x], Y @ [y])))
   \<and> (float_at d'' ''temperature'' = Fin t \<longrightarrow> at_absolute_zero d'' = (t = - 273.15))"
proof (intro conjI impI)
  assume a: "store_ok s \<and> d \<in> set s \<and> valid_reading d \<and> at_absolute_zero d"
  then have "\<not> no_zero_kelvin s" by (auto simp: no_zero_kelvin_iff)
  with a have c: "collect_points s [] [] = Inl (PyExn ZeroDivisionError ''float division by zero'')"
    by (simp add: collect_points_zero)
  then show "\<exists>e. calculate_band_gap np_polyfit np_corrcoef s = (Raised e, s)
         \<and> exn_class_of e = ZeroDivisionError"
    by (simp add: calculate_band_gap_def)
  from c show "status_of (fst (calculate_band_gap np_polyfit np_corrcoef s)) = None"
    by (simp add: calculate_band_gap_def)
next
  assume a: "reading_ok d' \<and> valid_reading d' \<and> \<not> at_absolute_zero d'"
  then obtain x y where "x_of d' = Inr x" and "y_of d' = Inr y"
    using x_of_nonzero y_of_valid by blast
  with a show "\<exists>x y. x_of d' = Inr x \<and> y_of d' = Inr y
         \<and> collect_points [d'] X Y = Inr (X @ [x], Y @ [y])"
    by (simp add: collect_points_reading del: collect_points.simps(2))
next
  assume "float_at d'' ''temperature'' = Fin t"
  then show "at_absolute_zero d'' = (t = - 273.15)" by (simp add: at_absolute_zero_def)
qed

text \<open>A reading at \<open>-273.15\<close> degrees between two ordinary ones.\<close>

theorem unguarded_division_witness:
  "store_ok
     [reading_of 25 0.001 0.5,
      reading_of (- 273.15) 1 0,
      reading_of 75 0.004 0.5]
   \<and> (reading_of (- 273.15) 1 0)
      \<in> set [reading_of 25 0.001 0.5,
      reading_of (- 273.15) 1 0,
      reading_of 75 0.004 0.5]
   \<and> valid_reading (reading_of (- 273.15) 1 0)
   \<and> at_absolute_zero (reading_of (- 273.15) 1 0)
   \<and> calculate_band_gap sample_polyfit sample_corrcoef
     [reading_of 25 0.001 0.5,
      reading_of (- 273.15) 1 0,
      reading_of 75 0.004 0.5]
     = (Raised (PyExn ZeroDivisionError ''float division by zero''),
     [reading_of 25 0.001 0.5,
      reading_of (- 273.15) 1 0,
      reading_of 75 0.004 0.5])
   \<and> reading_ok (reading_of 75 0.004 0.5)
   \<and> valid_reading (reading_of 75 0.004 0.5)
   \<and> \<not> at_absolute_zero (reading_of 75 0.004 0.5)
   \<and> collect_points [reading_of 75 0.004 0.5] [Fin 1] [Fin 2]
     = Inr ([Fin 1, Fin (1 / (75 + 273.15))], [Fin 2, Fin (ln 0.004)])
   \<and> float_at (reading_of (- 273.15) 1 0) ''temperature''
     = Fin (- 273.15)"
  using unguarded_division [of
     "[reading_of 25 0.001 0.5,
      reading_of (- 273.15) 1 0,
      reading_of 75 0.004 0.5]"
     "(reading_of (- 273.15) 1 0)"
     "sample_polyfit" "sample_corrcoef"
     "(reading_of 75 0.004 0.5)"
     "[Fin 1]" "[Fin 2]"
     "(reading_of (- 273.15) 1 0)"
     "- 273.15"]
  by (simp add: store_ok_def reading_ok_def is_float_at_def no_zero_kelvin_def
      valid_reading_def at_absolute_zero_def float_at_def dict_getitem_def x_of_def y_of_def
      calculate_band_gap_def)

text \<open>
  C2.  When the loop ends with a working set of at least two points and
  \<^verbatim>\<open>np.polyfit\<close> and \<^verbatim>\<open>np.corrcoef\<close> return on it, the answer is the 200 response
  whose \<^verbatim>\<open>band_gap_eV\<close> is \<open>-2 * 8.617e-5 * slope\<close> and whose \<^verbatim>\<open>slope_value\<close> is
  \<open>slope\<close>, the first coefficient \<^verbatim>\<open>np.polyfit\<close> returned for degree 1 on the
  working set.
\<close>

theorem band_gap_from_slope:
  assumes "collect_points s [] [] = Inr (X, Y)"
    and "2 \<le> length X"
    and "np_polyfit X Y 1 = Inr [slope, intercept]"
    and "np_corrcoef X Y = Inr m"
    and "mat_index m 0 1 = Inr c"
  shows "\<exists>r. calculate_band_gap np_polyfit np_corrcoef s = (Response 200 (Calculated r), s)
           \<and> band_gap_eV r = fmul (Fin (- 2 * (8.617 / 10 ^ 5))) slope
           \<and> slope_value r = slope \<and> inv_T r = X \<and> ln_I r = Y
           \<and> band_gap_eV r =
               (case slope of
                  Fin x \<Rightarrow> Fin (- 2 * (8.617 / 10 ^ 5) * x)
                | PInf \<Rightarrow> NInf
                | NInf \<Rightarrow> PInf
                | NaN \<Rightarrow> NaN)
           \<and> (\<forall>x. slope = Fin x \<longrightarrow> band_gap_eV r = Fin (- 2 * (8.617 / 10 ^ 5) * x))"
proof -
  have k: "fmul (Fin (- 2)) k_B = Fin (- 2 * (8.617 / 10 ^ 5))"
    by (simp add: k_B_def)
  then have "fit_try np_polyfit np_corrcoef X Y =
      Inr (fmul (Fin (- 2 * (8.617 / 10 ^ 5))) slope, fsquare c, slope)"
    using assms(3-5) by (simp add: fit_try_def)
  moreover have "fmul (Fin (- 2 * (8.617 / 10 ^ 5))) slope =
      (case slope of
         Fin x \<Rightarrow> Fin (- 2 * (8.617 / 10 ^ 5) * x)
       | PInf \<Rightarrow> NInf
       | NInf \<Rightarrow> PInf
       | NaN \<Rightarrow> NaN)"
    by (cases slope) simp_all
  ultimately show ?thesis
    using assms(1,2) by (auto simp: calculate_band_gap_points)
qed

text \<open>Two readings, a fit of slope \<open>-5000\<close>: the band gap is \<open>0.8617\<close>.\<close>

theorem band_gap_from_slope_witness:
  "collect_points
     [reading_of 25 0.001 0.5,
      reading_of 75 0.004 0.5] [] []
     = Inr ([Fin (1 / (25 + 273.15)), Fin (1 / (75 + 273.15))], [Fin (ln 0.001), Fin (ln 0.004)])
   \<and> (2::nat) \<le> length [Fin (1 / (25 + 273.15)), Fin (1 / (75 + 273.15))]
   \<and> sample_polyfit [Fin (1 / (25 + 273.15)), Fin (1 / (75 + 273.15))] [Fin (ln 0.001), Fin (ln 0.004)] 1
     = Inr [Fin (- 5000), Fin 10]
   \<and> sample_corrcoef [Fin (1 / (25 + 273.15)), Fin (1 / (75 + 273.15))] [Fin (ln 0.001), Fin (ln 0.004)]
     = Inr [[Fin 1, Fin (- 0.9)], [Fin (- 0.9), Fin 1]]
   \<and> mat_index [[Fin 1, Fin (- 0.9)], [Fin (- 0.9), Fin 1]] 0 1 = Inr (Fin (- 0.9))
   \<and> calculate_band_gap sample_polyfit sample_corrcoef
     [reading_of 25 0.001 0.5,
      reading_of 75 0.004 0.5]
     = (Response 200 (Calculated
          \<lparr>message = ''Calculation successful'', band_gap_eV = Fin 0.8617,
           r_squared = Fin 0.81, slope_value = Fin (- 5000),
           inv_T = [Fin (1 / (25 + 273.15)), Fin (1 / (75 + 273.15))],
           ln_I = [Fin (ln 0.001), Fin (ln 0.004)]\<rparr>),
     [reading_of 25 0.001 0.5,
      reading_of 75 0.004 0.5])
   \<and> Fin 0.8617 = Fin (- 2 * (8.617 / 10 ^ 5) * (- 5000))"
  using band_gap_from_slope [of
     "[reading_of 25 0.001 0.5,
      reading_of 75 0.004 0.5]"
     "[Fin (1 / (25 + 273.15)), Fin (1 / (75 + 273.15))]" "[Fin (ln 0.001), Fin (ln 0.004)]"
     "sample_polyfit" "Fin (- 5000)" "Fin 10" "sample_corrcoef"
     "[[Fin 1, Fin (- 0.9)], [Fin (- 0.9), Fin 1]]" "Fin (- 0.9)"]
  by (simp add: store_ok_def reading_ok_def is_float_at_def no_zero_kelvin_def
      valid_reading_def at_absolute_zero_def float_at_def dict_getitem_def x_of_def y_of_def
      calculate_band_gap_def fit_try_def mat_index_def k_B_def power2_eq_square)

text \<open>
  C6.  In every 200 response of \<^verbatim>\<open>calculate_band_gap\<close>, \<^verbatim>\<open>r_squared\<close> is the square
  of the entry \<open>[0, 1]\<close> of the matrix \<^verbatim>\<open>np.corrcoef\<close> returned for the two
  coordinate lists of the working set (the lists the response carries); what
  \<^verbatim>\<open>np.polyfit\<close> returned has no part in it.
\<close>

theorem r_squared_pearson:
  assumes "calculate_band_gap np_polyfit np_corrcoef s = (Response 200 (Calculated r), s')"
  shows "\<exists>m c. collect_points s [] [] = Inr (inv_T r, ln_I r)
           \<and> np_corrcoef (inv_T r) (ln_I r) = Inr m
           \<and> mat_index m 0 1 = Inr c
           \<and> r_squared r = fsquare c
           \<and> r_squared r =
               (case c of Fin a \<Rightarrow> Fin (a ^ 2) | PInf \<Rightarrow> PInf | NInf \<Rightarrow> PInf | NaN \<Rightarrow> NaN)
           \<and> (\<forall>a. c = Fin a \<longrightarrow> r_squared r = Fin (a ^ 2))"
proof -
  have sq: "fsquare c =
      (case c of Fin a \<Rightarrow> Fin (a ^ 2) | PInf \<Rightarrow> PInf | NInf \<Rightarrow> PInf | NaN \<Rightarrow> NaN)" for c
    by (cases c) simp_all
  from assms obtain m c where "collect_points s [] [] = Inr (inv_T r, ln_I r)"
    and "np_corrcoef (inv_T r) (ln_I r) = Inr m"
    and "mat_index m 0 1 = Inr c"
    and "r_squared r = fsquare c"
    by (auto simp: calculate_band_gap_def fit_try_def Let_def
        split: sum.splits prod.splits if_splits)
  then show ?thesis
    using sq [of c] by (intro exI [of _ m] exI [of _ c]) auto
qed

text \<open>A correlation of \<open>-0.9\<close> gives \<^verbatim>\<open>r_squared\<close> \<open>0.81\<close>.\<close>

theorem r_squared_pearson_witness:
  "calculate_band_gap sample_polyfit sample_corrcoef
     [reading_of 25 0.001 0.5,
      reading_of 75 0.004 0.5]
     = (Response 200 (Calculated
          \<lparr>message = ''Calculation successful'', band_gap_eV = Fin 0.8617,
           r_squared = Fin 0.81, slope_value = Fin (- 5000),
           inv_T = [Fin (1 / (25 + 273.15)), Fin (1 / (75 + 273.15))],
           ln_I = [Fin (ln 0.001), Fin (ln 0.004)]\<rparr>),
     [reading_of 25 0.001 0.5,
      reading_of 75 0.004 0.5])
   \<and> sample_corrcoef [Fin (1 / (25 + 273.15)), Fin (1 / (75 + 273.15))] [Fin (ln 0.001), Fin (ln 0.004)]
     = Inr [[Fin 1, Fin (- 0.9)], [Fin (- 0.9), Fin 1]]
   \<and> mat_index [[Fin 1, Fin (- 0.9)], [Fin (- 0.9), Fin 1]] 0 1 = Inr (Fin (- 0.9))
   \<and> Fin 0.81 = Fin ((- 0.9) ^ 2)"
  using r_squared_pearson [of "sample_polyfit" "sample_corrcoef"
     "[reading_of 25 0.001 0.5,
      reading_of 75 0.004 0.5]"
     "\<lparr>message = ''Calculation successful'', band_gap_eV = Fin 0.8617,
           r_squared = Fin 0.81, slope_value = Fin (- 5000),
           inv_T = [Fin (1 / (25 + 273.15)), Fin (1 / (75 + 273.15))],
           ln_I = [Fin (ln 0.001), Fin (ln 0.004)]\<rparr>"
     "[reading_of 25 0.001 0.5,
      reading_of 75 0.004 0.5]"]
  by (simp add: store_ok_def reading_ok_def is_float_at_def no_zero_kelvin_def
      valid_reading_def at_absolute_zero_def float_at_def dict_getitem_def x_of_def y_of_def
      calculate_band_gap_def fit_try_def mat_index_def k_B_def power2_eq_square)

section \<open>\<^verbatim>\<open>calculate_band_gap\<close> and the list\<close>

text \<open>
  C8.  \<^verbatim>\<open>calculate_band_gap\<close> leaves the list as it found it, whether it answers
  200, 400 or 500 or an exception leaves it.
\<close>

theorem calculate_band_gap_keeps_store:
  "snd (calculate_band_gap np_polyfit np_corrcoef s) = s"
  by (simp add: calculate_band_gap_def split: sum.splits prod.splits)

text \<open>
  C9.  Two calls of \<^verbatim>\<open>calculate_band_gap\<close> in a row, the second on the list the
  first returned, give the same outcome, and the list is still the one before the
  first call.
\<close>

theorem calculate_band_gap_twice:
  "(let (r1, s1) = calculate_band_gap np_polyfit np_corrcoef s;
        (r2, s2) = calculate_band_gap np_polyfit np_corrcoef s1
    in r1 = r2 \<and> s2 = s)"
  by (simp add: calculate_band_gap_def split: sum.splits prod.splits)

end
